theory Spec2Isabelle
  imports Complex_Main "HOL-Library.Monad_Syntax"
begin

section \<open>JavaScript values\<close>

text \<open>
  The handlers of \<^verbatim>\<open>index.js\<close> read two kinds of data: the query object that Express
  builds from the URL, and the request body that \<^verbatim>\<open>express.json()\<close> parses. Both are
  plain JavaScript values: \<^verbatim>\<open>undefined\<close> (an absent property), \<^verbatim>\<open>null\<close>, booleans,
  numbers, strings, arrays and objects. An object is the list of its own properties; the
  parser keeps one value per key, and a lookup takes the first binding of a key.

  A number is kept as a rational. The handlers look at a number only through its
  truthiness, and a parsed number is falsy exactly when it is zero.
\<close>

datatype jsval =
    JUndefined
  | JNull
  | JBool bool
  | JNum rat
  | JStr string
  | JArr "jsval list"
  | JObj "(string \<times> jsval) list"

text \<open>The conversion to boolean that \<^verbatim>\<open>if (v)\<close> and \<^verbatim>\<open>a && b\<close> apply.\<close>

fun truthy :: "jsval \<Rightarrow> bool" where
  "truthy JUndefined = False"
| "truthy JNull = False"
| "truthy (JBool b) = b"
| "truthy (JNum n) = (n \<noteq> 0)"
| "truthy (JStr s) = (s \<noteq> [])"
| "truthy (JArr xs) = True"
| "truthy (JObj kvs) = True"

text \<open>
  \<^verbatim>\<open>a === b\<close> where \<open>b\<close> is a primitive, which is the only way the source uses it
  (the right operand is a string literal or an environment variable): primitives are
  compared by type and value, and an array or object is never identical to a primitive.
\<close>

fun strict_eq :: "jsval \<Rightarrow> jsval \<Rightarrow> bool" where
  "strict_eq (JArr xs) b = False"
| "strict_eq (JObj kvs) b = False"
| "strict_eq a b = (a = b)"

text \<open>An own property of an object, \<^verbatim>\<open>undefined\<close> when there is none.\<close>

definition own_prop :: "(string \<times> jsval) list \<Rightarrow> string \<Rightarrow> jsval" where
  "own_prop kvs k = (case map_of kvs k of None \<Rightarrow> JUndefined | Some v \<Rightarrow> v)"

text \<open>
  \<^verbatim>\<open>v.k\<close> for the property names the handlers read (\<^verbatim>\<open>object\<close>, \<^verbatim>\<open>entry\<close>,
  \<^verbatim>\<open>messaging\<close>, \<^verbatim>\<open>sender\<close>, \<^verbatim>\<open>id\<close>, \<^verbatim>\<open>message\<close>, \<^verbatim>\<open>text\<close>, and
  \<^verbatim>\<open>data\<close> of an error's response), none of which is defined on a built-in prototype. Reading a property of \<^verbatim>\<open>undefined\<close> or \<^verbatim>\<open>null\<close>
  throws a TypeError, which is the result \<open>None\<close>; a boolean, number, string or array
  has no such property and yields \<^verbatim>\<open>undefined\<close>.
\<close>

fun get_prop :: "jsval \<Rightarrow> string \<Rightarrow> jsval option" where
  "get_prop JUndefined k = None"
| "get_prop JNull k = None"
| "get_prop (JObj kvs) k = Some (own_prop kvs k)"
| "get_prop v k = Some JUndefined"

text \<open>
  \<^verbatim>\<open>v[0]\<close>: the first element of an array (\<^verbatim>\<open>undefined\<close> when it is empty), the first
  character of a string, the property \<^verbatim>\<open>"0"\<close> of an object; a TypeError on
  \<^verbatim>\<open>undefined\<close> and \<^verbatim>\<open>null\<close>.
\<close>

fun get_index0 :: "jsval \<Rightarrow> jsval option" where
  "get_index0 JUndefined = None"
| "get_index0 JNull = None"
| "get_index0 (JArr xs) = Some (case xs of [] \<Rightarrow> JUndefined | x # rest \<Rightarrow> x)"
| "get_index0 (JStr s) = Some (case s of [] \<Rightarrow> JUndefined | c # rest \<Rightarrow> JStr [c])"
| "get_index0 (JObj kvs) = Some (own_prop kvs ''0'')"
| "get_index0 v = Some JUndefined"

section \<open>Template literals\<close>

text \<open>
  A template literal converts each interpolated value to a string. The conversion throws
  a TypeError on an object with an own property \<^verbatim>\<open>toString\<close>: a parsed value is never
  callable, and \<^verbatim>\<open>valueOf\<close> (own and not callable, or inherited and returning the
  object) gives no primitive either. An array joins the conversions of its elements,
  skipping \<^verbatim>\<open>undefined\<close> and \<^verbatim>\<open>null\<close>, so it throws when one of them does.
  The rendered text itself is kept symbolic, as the pieces of the literal.
\<close>

fun to_string_throws :: "jsval \<Rightarrow> bool" where
  "to_string_throws (JObj kvs) = (map_of kvs ''toString'' \<noteq> None)"
| "to_string_throws (JArr xs) = list_ex to_string_throws xs"
| "to_string_throws v = False"

datatype js_error = TypeError | ServiceError string

datatype piece = Lit string | Interp jsval | Caught js_error

fun piece_throws :: "piece \<Rightarrow> bool" where
  "piece_throws (Interp v) = to_string_throws v"
| "piece_throws p = False"

definition template :: "piece list \<Rightarrow> piece list option" where
  "template ps = (if list_ex piece_throws ps then None else Some ps)"

section \<open>Configuration, effects and the world\<close>

text \<open>
  The configuration is read from the environment once; a variable that is not set is
  \<^verbatim>\<open>undefined\<close>.
\<close>

record config =
  WEBHOOK_VERIFY_TOKEN :: "string option"
  FACEBOOK_PAGE_ACCESS_TOKEN :: "string option"

definition env_value :: "string option \<Rightarrow> jsval" where
  "env_value v = (case v of None \<Rightarrow> JUndefined | Some s \<Rightarrow> JStr s)"

text \<open>
  Every effect of the program is a call that is appended to a trace: the methods called
  on the response object \<^verbatim>\<open>res\<close>, the console, the invocations of
  \<^verbatim>\<open>handleMessage\<close> that the POST handler starts, the prompts passed to
  \<^verbatim>\<open>model.generateContent\<close>, and the requests passed to \<^verbatim>\<open>axios.post\<close>.
\<close>

datatype res_call = Res_status nat | Res_send jsval | Res_sendStatus nat

datatype console_call = Console_log "piece list" | Console_error "piece list"

record request_body =
  recipient_id :: jsval
  message_text_field :: jsval

record axios_request =
  url :: string
  data :: request_body
  params_access_token :: "string option"

record world =
  console :: "console_call list"
  res :: "res_call list"
  handleMessage_calls :: "(jsval \<times> jsval) list"
  generateContent_calls :: "piece list list"
  axios_post_calls :: "axios_request list"

definition w0 :: world where
  "w0 = \<lparr>console = [], res = [], handleMessage_calls = [],
          generateContent_calls = [], axios_post_calls = []\<rparr>"

definition console_log :: "piece list \<Rightarrow> world \<Rightarrow> world" where
  "console_log ps w = w\<lparr>console := console w @ [Console_log ps]\<rparr>"

definition console_error :: "piece list \<Rightarrow> world \<Rightarrow> world" where
  "console_error ps w = w\<lparr>console := console w @ [Console_error ps]\<rparr>"

definition res_status :: "nat \<Rightarrow> world \<Rightarrow> world" where
  "res_status n w = w\<lparr>res := res w @ [Res_status n]\<rparr>"

definition res_send :: "jsval \<Rightarrow> world \<Rightarrow> world" where
  "res_send v w = w\<lparr>res := res w @ [Res_send v]\<rparr>"

definition res_sendStatus :: "nat \<Rightarrow> world \<Rightarrow> world" where
  "res_sendStatus n w = w\<lparr>res := res w @ [Res_sendStatus n]\<rparr>"

section \<open>The verification endpoint\<close>

text \<open>
  \<^verbatim>\<open>app.get('/webhook', (req, res) => ...)\<close>, lines 29 to 45. The argument \<open>query\<close>
  is \<^verbatim>\<open>req.query\<close>. The handler reads three parameters and responds only inside
  \<^verbatim>\<open>if (mode && token)\<close>.
\<close>

definition get_webhook :: "config \<Rightarrow> (string \<times> jsval) list \<Rightarrow> world \<Rightarrow> world" where
  "get_webhook cfg query w =
     (let mode = own_prop query ''hub.mode'';
          token = own_prop query ''hub.verify_token'';
          challenge = own_prop query ''hub.challenge''
      in if truthy mode \<and> truthy token then
           if strict_eq mode (JStr ''subscribe'')
              \<and> strict_eq token (env_value (WEBHOOK_VERIFY_TOKEN cfg))
           then res_send challenge (res_status 200 (console_log [Lit ''WEBHOOK_VERIFIED''] w))
           else res_sendStatus 403 w
         else w)"

section \<open>The message endpoint\<close>

text \<open>
  A handler or a callback either returns or throws; an \<^verbatim>\<open>async\<close> function settles
  its promise the same way (fulfilled or rejected). The world is returned in both cases:
  what happened before a throw stays done.
\<close>

datatype completion = Returned | Thrown js_error

text \<open>\<^verbatim>\<open>v?.k\<close>: \<^verbatim>\<open>undefined\<close> where \<^verbatim>\<open>v.k\<close> would throw.\<close>

definition opt_chain :: "jsval \<Rightarrow> string \<Rightarrow> jsval" where
  "opt_chain v k = (case get_prop v k of None \<Rightarrow> JUndefined | Some x \<Rightarrow> x)"

text \<open>
  The three constants of the callback, lines 58 to 61:
  \<^verbatim>\<open>entry.messaging[0]\<close>, \<^verbatim>\<open>webhook_event.sender.id\<close> and
  \<^verbatim>\<open>webhook_event.message?.text\<close>.
\<close>

definition webhook_event :: "jsval \<Rightarrow> jsval option" where
  "webhook_event entry = do { messaging \<leftarrow> get_prop entry ''messaging''; get_index0 messaging }"

definition sender_id :: "jsval \<Rightarrow> jsval option" where
  "sender_id ev = do { sender \<leftarrow> get_prop ev ''sender''; get_prop sender ''id'' }"

definition message_text :: "jsval \<Rightarrow> jsval option" where
  "message_text ev = do { message \<leftarrow> get_prop ev ''message''; Some (opt_chain message ''text'') }"

text \<open>
  The call \<^verbatim>\<open>handleMessage(sender_id, message_text)\<close> is not awaited: the handler
  goes on while the invocation runs. The call is recorded; the body of the function is
  \<open>handleMessage\<close> below.
\<close>

definition call_handleMessage :: "jsval \<Rightarrow> jsval \<Rightarrow> world \<Rightarrow> world" where
  "call_handleMessage senderId messageText w =
     w\<lparr>handleMessage_calls := handleMessage_calls w @ [(senderId, messageText)]\<rparr>"

text \<open>The callback of \<^verbatim>\<open>body.entry.forEach\<close>, lines 55 to 68.\<close>

definition entry_callback :: "jsval \<Rightarrow> world \<Rightarrow> completion \<times> world" where
  "entry_callback entry w =
     (case do { ev \<leftarrow> webhook_event entry;
                sid \<leftarrow> sender_id ev;
                txt \<leftarrow> message_text ev;
                Some (sid, txt) } of
        None \<Rightarrow> (Thrown TypeError, w)
      | Some (sid, txt) \<Rightarrow>
          if truthy txt then
            (case template [Lit ''Received message from '', Interp sid,
                            Lit ('': '' @ [CHR 0x22]), Interp txt, Lit [CHR 0x22]] of
               None \<Rightarrow> (Thrown TypeError, w)
             | Some line \<Rightarrow> (Returned, call_handleMessage sid txt (console_log line w)))
          else (Returned, w))"

text \<open>
  \<^verbatim>\<open>Array.prototype.forEach\<close>: the callback on each element in order; a throw of the
  callback ends the loop and is the loop's throw.
\<close>

fun forEach :: "(jsval \<Rightarrow> world \<Rightarrow> completion \<times> world) \<Rightarrow> jsval list \<Rightarrow> world
                 \<Rightarrow> completion \<times> world" where
  "forEach f [] w = (Returned, w)"
| "forEach f (x # xs) w =
     (case f x w of
        (Returned, w') \<Rightarrow> forEach f xs w'
      | (Thrown e, w') \<Rightarrow> (Thrown e, w'))"

text \<open>
  \<^verbatim>\<open>app.post('/webhook', (req, res) => ...)\<close>, lines 49 to 76. The argument \<open>body\<close> is
  \<^verbatim>\<open>req.body\<close>. Only an array has a callable \<^verbatim>\<open>forEach\<close>: on any other value of
  \<^verbatim>\<open>body.entry\<close> the call throws a TypeError.
\<close>

definition post_webhook :: "jsval \<Rightarrow> world \<Rightarrow> completion \<times> world" where
  "post_webhook body w =
     (case get_prop body ''object'' of
        None \<Rightarrow> (Thrown TypeError, w)
      | Some obj \<Rightarrow>
          if strict_eq obj (JStr ''page'') then
            (case get_prop body ''entry'' of
               Some (JArr entries) \<Rightarrow>
                 (case forEach entry_callback entries w of
                    (Returned, w') \<Rightarrow>
                      (Returned, res_send (JStr ''EVENT_RECEIVED'') (res_status 200 w'))
                  | (Thrown e, w') \<Rightarrow> (Thrown e, w'))
             | _ \<Rightarrow> (Thrown TypeError, w))
          else (Returned, res_sendStatus 404 w))"

section \<open>The message responder\<close>

text \<open>
  The two outbound services are the environment. Each answers a call from the calls made
  before it and the call's argument, so that the same request may succeed once and fail
  later.

  \<^verbatim>\<open>axios.post\<close> resolves, or rejects with an error that has a message and may have a
  response (\<^verbatim>\<open>undefined\<close> when the request got none).

  \<^verbatim>\<open>model.generateContent\<close> rejects, or resolves with a result. A result is malformed
  when reading \<^verbatim>\<open>result.response\<close> or calling \<^verbatim>\<open>response.text\<close> throws a TypeError
  (there is no result, no response, or no such method); otherwise
  \<^verbatim>\<open>response.text()\<close> returns the text or throws.
\<close>

datatype axios_error = AxiosError (error_response: jsval) (error_message: string)

datatype axios_outcome = Axios_resolves | Axios_rejects axios_error

datatype text_outcome = Text_returns string | Text_throws js_error

datatype sdk_result = Result_malformed | Result_response text_outcome

datatype sdk_outcome = Gen_resolves sdk_result | Gen_rejects js_error

record env =
  generateContent :: "piece list list \<Rightarrow> piece list \<Rightarrow> sdk_outcome"
  axios_post :: "axios_request list \<Rightarrow> axios_request \<Rightarrow> axios_outcome"

text \<open>\<^verbatim>\<open>error.response?.data || error.message\<close>, line 127.\<close>

definition error_detail :: "axios_error \<Rightarrow> jsval" where
  "error_detail error =
     (let d = opt_chain (error_response error) ''data''
      in if truthy d then d else JStr (error_message error))"

text \<open>
  The arguments of the call of \<^verbatim>\<open>axios.post\<close> in \<^verbatim>\<open>sendReply\<close>, lines 112 to
  124: the URL, the \<^verbatim>\<open>request_body\<close> with \<^verbatim>\<open>recipient.id\<close> and
  \<^verbatim>\<open>message.text\<close>, and the access token parameter.
\<close>

definition reply_request :: "config \<Rightarrow> jsval \<Rightarrow> jsval \<Rightarrow> axios_request" where
  "reply_request cfg recipientId text =
     \<lparr>url = ''https://graph.facebook.com/v19.0/me/messages'',
      data = \<lparr>recipient_id = recipientId, message_text_field = text\<rparr>,
      params_access_token = FACEBOOK_PAGE_ACCESS_TOKEN cfg\<rparr>"

text \<open>
  \<^verbatim>\<open>async function sendReply(recipientId, text)\<close>, lines 111 to 129. The
  \<^verbatim>\<open>try\<close> block holds the one call of \<^verbatim>\<open>axios.post\<close>; the \<^verbatim>\<open>catch\<close> block
  logs and returns.
\<close>

definition sendReply :: "env \<Rightarrow> config \<Rightarrow> jsval \<Rightarrow> jsval \<Rightarrow> world \<Rightarrow> completion \<times> world" where
  "sendReply e cfg recipientId text w =
     (let request = reply_request cfg recipientId text;
          w1 = w\<lparr>axios_post_calls := axios_post_calls w @ [request]\<rparr>
      in case axios_post e (axios_post_calls w) request of
           Axios_resolves \<Rightarrow> (Returned, console_log [Lit ''Reply sent successfully!''] w1)
         | Axios_rejects error \<Rightarrow>
             (Returned,
              console_error [Lit ''Unable to send message:'', Interp (error_detail error)] w1))"

definition fallback :: string where
  "fallback = ''Sorry, I'' @ [CHR 0x27] @ ''m having a little trouble right now. Please try again later.''"

definition prompt_template :: "jsval \<Rightarrow> piece list" where
  "prompt_template messageText =
     [Lit (''You are a helpful assistant for our Facebook Page. Please answer the following question concisely and friendly:''
           @ [CHR 0x0A, CHR 0x0A] @ ''User: ''),
      Interp messageText,
      Lit ([CHR 0x0A] @ ''Assistant:'')]"

text \<open>The \<^verbatim>\<open>try\<close> block of \<^verbatim>\<open>handleMessage\<close>, lines 87 to 97.\<close>

definition handleMessage_try :: "env \<Rightarrow> config \<Rightarrow> jsval \<Rightarrow> jsval \<Rightarrow> world \<Rightarrow> completion \<times> world" where
  "handleMessage_try e cfg senderId messageText w =
     (let w1 = console_log [Lit ''Asking Gemini for a response...''] w
      in case template (prompt_template messageText) of
           None \<Rightarrow> (Thrown TypeError, w1)
         | Some prompt \<Rightarrow>
             (let w2 = w1\<lparr>generateContent_calls := generateContent_calls w1 @ [prompt]\<rparr>
              in case generateContent e (generateContent_calls w1) prompt of
                   Gen_rejects error \<Rightarrow> (Thrown error, w2)
                 | Gen_resolves Result_malformed \<Rightarrow> (Thrown TypeError, w2)
                 | Gen_resolves (Result_response (Text_throws error)) \<Rightarrow> (Thrown error, w2)
                 | Gen_resolves (Result_response (Text_returns aiText)) \<Rightarrow>
                     sendReply e cfg senderId (JStr aiText)
                       (console_log [Lit (''Gemini responded: '' @ [CHR 0x22]),
                                     Interp (JStr aiText), Lit [CHR 0x22]] w2)))"

text \<open>
  \<^verbatim>\<open>async function handleMessage(senderId, messageText)\<close>, lines 85 to 104: the
  \<^verbatim>\<open>try\<close> block, and on a throw the \<^verbatim>\<open>catch\<close> block, which logs the error and
  sends the fallback message.
\<close>

definition handleMessage :: "env \<Rightarrow> config \<Rightarrow> jsval \<Rightarrow> jsval \<Rightarrow> world \<Rightarrow> completion \<times> world" where
  "handleMessage e cfg senderId messageText w =
     (case handleMessage_try e cfg senderId messageText w of
        (Returned, w') \<Rightarrow> (Returned, w')
      | (Thrown error, w') \<Rightarrow>
          sendReply e cfg senderId (JStr fallback)
            (console_error [Lit ''Error handling message:'', Caught error] w'))"

section \<open>A request with the invocations it starts\<close>

text \<open>
  The invocations of \<^verbatim>\<open>handleMessage\<close> that a POST request starts run to their end,
  here one after the other in the order of their start. An invocation that rejects is
  an unhandled rejection and does not stop the others. The order in which concurrent
  invocations interleave is not modelled; the properties below count and compare the
  outbound calls and do not depend on it.
\<close>

fun run_invocations :: "env \<Rightarrow> config \<Rightarrow> (jsval \<times> jsval) list \<Rightarrow> world \<Rightarrow> world" where
  "run_invocations e cfg [] w = w"
| "run_invocations e cfg ((senderId, messageText) # rest) w =
     run_invocations e cfg rest (snd (handleMessage e cfg senderId messageText w))"

definition serve_post :: "env \<Rightarrow> config \<Rightarrow> jsval \<Rightarrow> world \<Rightarrow> completion \<times> world" where
  "serve_post e cfg body w =
     (case post_webhook body w of
        (c, w') \<Rightarrow>
          (c, run_invocations e cfg
                (drop (length (handleMessage_calls w)) (handleMessage_calls w')) w'))"

section \<open>Payloads and notions of the specification\<close>

text \<open>
  The body that the platform posts has the shape
  \<^verbatim>\<open>{ object, entry: [{ messaging: [{ sender: {id}, message?: {text} }] }] }\<close>.
  The three builders below write such bodies down; the handlers never use them.
\<close>

definition page_body :: "jsval list \<Rightarrow> jsval" where
  "page_body entries = JObj [(''object'', JStr ''page''), (''entry'', JArr entries)]"

definition messaging_entry :: "jsval list \<Rightarrow> jsval" where
  "messaging_entry events = JObj [(''messaging'', JArr events)]"

definition text_event :: "string \<Rightarrow> string \<Rightarrow> jsval" where
  "text_event u t =
     JObj [(''sender'', JObj [(''id'', JStr u)]), (''message'', JObj [(''text'', JStr t)])]"

text \<open>
  The invocations of the responder that one entry accounts for: the pair of the first
  event's \<^verbatim>\<open>sender.id\<close> and \<^verbatim>\<open>message.text\<close> when the text satisfies \<open>P\<close>, and
  none otherwise.
\<close>

definition dispatch_when :: "(jsval \<Rightarrow> bool) \<Rightarrow> jsval \<Rightarrow> (jsval \<times> jsval) list" where
  "dispatch_when P entry =
     (case webhook_event entry of
        None \<Rightarrow> []
      | Some ev \<Rightarrow>
          (case (sender_id ev, message_text ev) of
             (Some sid, Some txt) \<Rightarrow> if P txt then [(sid, txt)] else []
           | _ \<Rightarrow> []))"

text \<open>
  In the words of the specification: the message text is present and non-empty. The data
  model of the specification types the text as an optional string: absent
  (\<^verbatim>\<open>undefined\<close> or \<^verbatim>\<open>null\<close>) or a string.
\<close>

definition text_present_nonempty :: "jsval \<Rightarrow> bool" where
  "text_present_nonempty txt = (case txt of JStr s \<Rightarrow> s \<noteq> [] | _ \<Rightarrow> False)"

definition optional_string :: "jsval \<Rightarrow> bool" where
  "optional_string v =
     (case v of JUndefined \<Rightarrow> True | JNull \<Rightarrow> True | JStr s \<Rightarrow> True | _ \<Rightarrow> False)"

definition text_is_optional_string :: "jsval \<Rightarrow> bool" where
  "text_is_optional_string entry =
     (case webhook_event entry of
        None \<Rightarrow> True
      | Some ev \<Rightarrow> (case message_text ev of None \<Rightarrow> True | Some txt \<Rightarrow> optional_string txt))"

text \<open>
  An entry of the shape the platform documents for a message: it has a first messaging
  event with a sender, and where the text is logged (a truthy text) the sender's id and
  the text can be converted to strings.
\<close>

definition entry_well_formed :: "jsval \<Rightarrow> bool" where
  "entry_well_formed entry =
     (case webhook_event entry of
        None \<Rightarrow> False
      | Some ev \<Rightarrow>
          (case (sender_id ev, message_text ev) of
             (Some sid, Some txt) \<Rightarrow>
               (if truthy txt then \<not> to_string_throws sid \<and> \<not> to_string_throws txt else True)
           | _ \<Rightarrow> False))"

text \<open>
  The first element of an entry's \<^verbatim>\<open>messaging\<close> array, when the array has one; two
  entries have the same first event when both have one and it is the same.
\<close>

definition first_event :: "jsval \<Rightarrow> jsval option" where
  "first_event entry =
     (case get_prop entry ''messaging'' of
        Some (JArr (ev # rest)) \<Rightarrow> Some ev
      | _ \<Rightarrow> None)"

definition same_first_event :: "jsval \<Rightarrow> jsval \<Rightarrow> bool" where
  "same_first_event e1 e2 =
     (case first_event e1 of None \<Rightarrow> False | Some ev \<Rightarrow> first_event e2 = Some ev)"

text \<open>
  The generative call fails: the promise rejects, the result is malformed, or
  \<^verbatim>\<open>response.text()\<close> throws.
\<close>

fun generative_failure :: "sdk_outcome \<Rightarrow> bool" where
  "generative_failure (Gen_rejects error) = True"
| "generative_failure (Gen_resolves Result_malformed) = True"
| "generative_failure (Gen_resolves (Result_response (Text_throws error))) = True"
| "generative_failure (Gen_resolves (Result_response (Text_returns aiText))) = False"

text \<open>Two environments and a configuration for the concrete runs below.\<close>

definition failing_env :: env where
  "failing_env =
     \<lparr>generateContent = (\<lambda>calls prompt. Gen_rejects (ServiceError ''503 Service Unavailable'')),
      axios_post = (\<lambda>calls request.
        Axios_rejects (AxiosError (JObj [(''data'', JStr ''(#100) No matching user found'')])
                                  ''Request failed with status code 400''))\<rparr>"

definition working_env :: env where
  "working_env =
     \<lparr>generateContent = (\<lambda>calls prompt. Gen_resolves (Result_response (Text_returns ''Hello!''))),
      axios_post = (\<lambda>calls request. Axios_resolves)\<rparr>"

definition example_config :: config where
  "example_config =
     \<lparr>WEBHOOK_VERIFY_TOKEN = Some ''s3cret'', FACEBOOK_PAGE_ACCESS_TOKEN = Some ''EAAB''\<rparr>"

section \<open>Evaluation and helper facts\<close>

lemmas effects = console_log_def console_error_def res_status_def res_send_def res_sendStatus_def

lemmas reads = own_prop_def webhook_event_def sender_id_def message_text_def opt_chain_def

lemmas handler = post_webhook_def entry_callback_def template_def call_handleMessage_def

lemmas payload = page_body_def messaging_entry_def text_event_def

lemma sendReply_returned: "fst (sendReply e cfg recipientId text w) = Returned"
  by (simp add: sendReply_def Let_def split: axios_outcome.split)

lemma sendReply_axios_post_calls:
  "axios_post_calls (snd (sendReply e cfg recipientId text w))
     = axios_post_calls w @ [reply_request cfg recipientId text]"
  by (simp add: sendReply_def Let_def effects split: axios_outcome.split)

lemma handleMessage_returned: "fst (handleMessage e cfg senderId messageText w) = Returned"
  by (simp add: handleMessage_def sendReply_returned split: prod.split completion.split)

lemma handleMessage_try_thrown:
  assumes "template (prompt_template messageText) = Some prompt"
    and "generative_failure (generateContent e (generateContent_calls w) prompt)"
  shows "\<exists>error w'. handleMessage_try e cfg senderId messageText w = (Thrown error, w')
           \<and> axios_post_calls w' = axios_post_calls w"
  using assms
  by (cases "generateContent e (generateContent_calls w) prompt" rule: generative_failure.cases)
     (simp_all add: handleMessage_try_def Let_def effects)

lemma entry_callback_returned:
  assumes "entry_callback entry w = (Returned, w')"
  shows "handleMessage_calls w' = handleMessage_calls w @ dispatch_when truthy entry
         \<and> res w' = res w \<and> generateContent_calls w' = generateContent_calls w
         \<and> axios_post_calls w' = axios_post_calls w"
  using assms
  by (auto simp add: entry_callback_def dispatch_when_def call_handleMessage_def effects
           split: option.splits if_splits bind_splits)

lemma entry_callback_thrown:
  assumes "entry_callback entry w = (Thrown error, w')"
  shows "w' = w"
  using assms
  by (auto simp add: entry_callback_def split: option.splits if_splits)

lemma forEach_entry_callback_returned:
  assumes "forEach entry_callback entries w = (Returned, w')"
  shows "handleMessage_calls w' = handleMessage_calls w @ concat (map (dispatch_when truthy) entries)
         \<and> res w' = res w \<and> generateContent_calls w' = generateContent_calls w
         \<and> axios_post_calls w' = axios_post_calls w"
  using assms
proof (induction entries arbitrary: w)
  case Nil
  then show ?case by simp
next
  case (Cons entry entries)
  obtain c w1 where step: "entry_callback entry w = (c, w1)"
    by (cases "entry_callback entry w")
  with Cons.prems have c: "c = Returned"
    and rest: "forEach entry_callback entries w1 = (Returned, w')"
    by (auto split: completion.splits)
  from step c have "entry_callback entry w = (Returned, w1)" by simp
  from entry_callback_returned [OF this] Cons.IH [OF rest]
  show ?case by simp
qed

lemma forEach_entry_callback_res:
  "res (snd (forEach entry_callback entries w)) = res w"
proof (induction entries arbitrary: w)
  case Nil
  then show ?case by simp
next
  case (Cons entry entries)
  obtain c w1 where step: "entry_callback entry w = (c, w1)"
    by (cases "entry_callback entry w")
  show ?case
  proof (cases c)
    case Returned
    with step entry_callback_returned [of entry w w1] Cons.IH [of w1]
    show ?thesis by simp
  next
    case (Thrown error)
    with step entry_callback_thrown [of entry w error w1]
    show ?thesis by simp
  qed
qed

lemma truthy_optional_string:
  "optional_string v \<Longrightarrow> truthy v = text_present_nonempty v"
  by (cases v) (simp_all add: optional_string_def text_present_nonempty_def)

lemma dispatch_when_optional_string:
  "text_is_optional_string entry \<Longrightarrow>
     dispatch_when truthy entry = dispatch_when text_present_nonempty entry"
  by (auto simp add: text_is_optional_string_def dispatch_when_def truthy_optional_string
           split: option.splits)

lemma first_event_webhook_event:
  "first_event entry = Some ev \<Longrightarrow> webhook_event entry = Some ev"
  by (auto simp add: first_event_def webhook_event_def
           split: option.splits jsval.splits list.splits)

lemma entry_callback_first_event:
  assumes "first_event e1 = Some ev" and "first_event e2 = Some ev"
  shows "entry_callback e1 w = entry_callback e2 w"
proof -
  from assms have "webhook_event e1 = webhook_event e2"
    by (simp add: first_event_webhook_event)
  then show ?thesis by (simp add: entry_callback_def)
qed

lemma forEach_first_event:
  assumes "list_all2 same_first_event es1 es2"
  shows "forEach entry_callback es1 w = forEach entry_callback es2 w"
  using assms
proof (induction es1 es2 arbitrary: w rule: list_all2_induct)
  case Nil
  then show ?case by simp
next
  case (Cons e1 es1 e2 es2)
  from Cons.hyps(1) obtain ev where "first_event e1 = Some ev" and "first_event e2 = Some ev"
    by (auto simp add: same_first_event_def split: option.splits)
  then have "entry_callback e1 w = entry_callback e2 w"
    by (rule entry_callback_first_event)
  with Cons.IH show ?case
    by (simp split: prod.split completion.split)
qed

text \<open>
  On a body whose entries are all well formed the handler returns: it starts the
  responder for the entries whose first event has a non-empty text, with that event's
  \<^verbatim>\<open>sender.id\<close> and \<^verbatim>\<open>message.text\<close>, and responds 200 with
  \<^verbatim>\<open>"EVENT_RECEIVED"\<close>. The scenario of the specification is such a body.
\<close>

lemma entry_callback_well_formed:
  assumes "entry_well_formed entry"
  shows "fst (entry_callback entry w) = Returned"
  using assms
  by (auto simp add: entry_well_formed_def entry_callback_def template_def
           split: option.splits if_splits)

lemma forEach_well_formed:
  assumes "list_all entry_well_formed entries"
  shows "fst (forEach entry_callback entries w) = Returned"
  using assms
proof (induction entries arbitrary: w)
  case Nil
  then show ?case by simp
next
  case (Cons entry entries)
  then have "fst (entry_callback entry w) = Returned"
    by (simp add: entry_callback_well_formed)
  then obtain w1 where "entry_callback entry w = (Returned, w1)"
    by (cases "entry_callback entry w") simp
  with Cons show ?case by simp
qed

lemma post_webhook_well_formed:
  assumes "get_prop body ''object'' = Some (JStr ''page'')"
    and "get_prop body ''entry'' = Some (JArr entries)"
    and "list_all entry_well_formed entries"
    and "list_all text_is_optional_string entries"
  shows "fst (post_webhook body w) = Returned
         \<and> handleMessage_calls (snd (post_webhook body w))
             = handleMessage_calls w @ concat (map (dispatch_when text_present_nonempty) entries)
         \<and> res (snd (post_webhook body w))
             = res w @ [Res_status 200, Res_send (JStr ''EVENT_RECEIVED'')]"
proof -
  from forEach_well_formed [OF assms(3), of w]
  obtain w1 where loop: "forEach entry_callback entries w = (Returned, w1)"
    by (cases "forEach entry_callback entries w") auto
  from forEach_entry_callback_returned [OF this]
  have calls: "handleMessage_calls w1
                 = handleMessage_calls w @ concat (map (dispatch_when truthy) entries)"
    and r: "res w1 = res w" by simp_all
  have "map (dispatch_when truthy) entries = map (dispatch_when text_present_nonempty) entries"
    using assms(4) by (simp add: list_all_iff dispatch_when_optional_string)
  with calls r loop assms(1,2) show ?thesis
    by (simp add: post_webhook_def effects)
qed

lemma post_webhook_scenario:
  "post_webhook (page_body [messaging_entry [text_event ''U1'' ''Hi'']]) w0
   = (Returned,
      \<lparr>console = [Console_log [Lit ''Received message from '', Interp (JStr ''U1''),
                                Lit ('': '' @ [CHR 0x22]), Interp (JStr ''Hi''), Lit [CHR 0x22]]],
       res = [Res_status 200, Res_send (JStr ''EVENT_RECEIVED'')],
       handleMessage_calls = [(JStr ''U1'', JStr ''Hi'')],
       generateContent_calls = [], axios_post_calls = []\<rparr>)"
  by (simp add: handler reads effects payload w0_def)

section \<open>The verification endpoint: properties\<close>

text \<open>
  Claim C1, as amended. For every GET verification request whose \<^verbatim>\<open>hub.mode\<close> is
  \<^verbatim>\<open>"subscribe"\<close> and whose \<^verbatim>\<open>hub.verify_token\<close> is a non-empty string equal to the
  configured verification secret, the handler calls \<^verbatim>\<open>res.status(200)\<close> and then
  \<^verbatim>\<open>res.send\<close> with the supplied \<^verbatim>\<open>hub.challenge\<close>, and does nothing else to the
  response; its one other effect is a line on the console.
\<close>

theorem get_webhook_verified:
  assumes "own_prop query ''hub.mode'' = JStr ''subscribe''"
    and "own_prop query ''hub.verify_token'' = JStr s"
    and "WEBHOOK_VERIFY_TOKEN cfg = Some s"
    and "s \<noteq> []"
  shows "get_webhook cfg query w =
           w\<lparr>console := console w @ [Console_log [Lit ''WEBHOOK_VERIFIED'']],
             res := res w @ [Res_status 200, Res_send (own_prop query ''hub.challenge'')]\<rparr>"
  using assms by (simp add: get_webhook_def env_value_def effects)

text \<open>
  The request \<^verbatim>\<open>?hub.mode=subscribe&hub.verify_token=s3cret&hub.challenge=123\<close> with
  the secret \<^verbatim>\<open>s3cret\<close>.
\<close>

theorem get_webhook_verified_witness:
  "get_webhook example_config
     [(''hub.mode'', JStr ''subscribe''), (''hub.verify_token'', JStr ''s3cret''),
      (''hub.challenge'', JStr ''123'')] w0
   = \<lparr>console = [Console_log [Lit ''WEBHOOK_VERIFIED'']],
      res = [Res_status 200, Res_send (JStr ''123'')],
      handleMessage_calls = [], generateContent_calls = [], axios_post_calls = []\<rparr>"
  using get_webhook_verified
    [of "[(''hub.mode'', JStr ''subscribe''), (''hub.verify_token'', JStr ''s3cret''),
          (''hub.challenge'', JStr ''123'')]" "''s3cret''" example_config w0]
  by (simp add: own_prop_def w0_def example_config_def)

text \<open>
  Claim C1 as it is written fails when the configured secret is the empty string: the
  request \<^verbatim>\<open>?hub.mode=subscribe&hub.verify_token=&hub.challenge=123\<close> has the mode
  \<^verbatim>\<open>"subscribe"\<close> and a token equal to the secret, and the guard
  \<^verbatim>\<open>if (mode && token)\<close> takes the empty token for an absent one: nothing is called
  on the response.
\<close>

theorem get_webhook_empty_secret_counterexample:
  "own_prop [(''hub.mode'', JStr ''subscribe''), (''hub.verify_token'', JStr ''''),
             (''hub.challenge'', JStr ''123'')] ''hub.mode'' = JStr ''subscribe''
   \<and> own_prop [(''hub.mode'', JStr ''subscribe''), (''hub.verify_token'', JStr ''''),
               (''hub.challenge'', JStr ''123'')] ''hub.verify_token''
       = env_value (WEBHOOK_VERIFY_TOKEN
           \<lparr>WEBHOOK_VERIFY_TOKEN = Some '''', FACEBOOK_PAGE_ACCESS_TOKEN = None\<rparr>)
   \<and> res (get_webhook \<lparr>WEBHOOK_VERIFY_TOKEN = Some '''', FACEBOOK_PAGE_ACCESS_TOKEN = None\<rparr>
            [(''hub.mode'', JStr ''subscribe''), (''hub.verify_token'', JStr ''''),
             (''hub.challenge'', JStr ''123'')] w0) = []"
  by (simp add: get_webhook_def own_prop_def env_value_def w0_def)

text \<open>
  Claim C2, as amended. For every GET verification request whose \<^verbatim>\<open>hub.mode\<close> and
  \<^verbatim>\<open>hub.verify_token\<close> are both present and non-empty, and whose token does not match
  the configured verification secret, the handler calls \<^verbatim>\<open>res.sendStatus(403)\<close> and
  has no other effect.
\<close>

theorem get_webhook_forbidden:
  assumes "truthy (own_prop query ''hub.mode'')"
    and "truthy (own_prop query ''hub.verify_token'')"
    and "\<not> strict_eq (own_prop query ''hub.verify_token'') (env_value (WEBHOOK_VERIFY_TOKEN cfg))"
  shows "get_webhook cfg query w = w\<lparr>res := res w @ [Res_sendStatus 403]\<rparr>"
  using assms by (simp add: get_webhook_def effects)

text \<open>
  The scenario of the specification:
  \<^verbatim>\<open>?hub.mode=subscribe&hub.verify_token=WRONG&hub.challenge=123\<close>.
\<close>

theorem get_webhook_forbidden_witness:
  "get_webhook example_config
     [(''hub.mode'', JStr ''subscribe''), (''hub.verify_token'', JStr ''WRONG''),
      (''hub.challenge'', JStr ''123'')] w0
   = \<lparr>console = [], res = [Res_sendStatus 403],
      handleMessage_calls = [], generateContent_calls = [], axios_post_calls = []\<rparr>"
  using get_webhook_forbidden
    [of "[(''hub.mode'', JStr ''subscribe''), (''hub.verify_token'', JStr ''WRONG''),
          (''hub.challenge'', JStr ''123'')]" example_config w0]
  by (simp add: own_prop_def env_value_def w0_def example_config_def)

text \<open>
  Claim C2 as it is written fails on a request that carries a wrong token and no
  \<^verbatim>\<open>hub.mode\<close>, \<^verbatim>\<open>?hub.verify_token=WRONG&hub.challenge=123\<close>: the token does
  not match the secret \<^verbatim>\<open>s3cret\<close>, and the handler calls nothing on the response.
\<close>

theorem get_webhook_wrong_token_no_mode_counterexample:
  "\<not> strict_eq (own_prop [(''hub.verify_token'', JStr ''WRONG''), (''hub.challenge'', JStr ''123'')]
                   ''hub.verify_token'')
        (env_value (WEBHOOK_VERIFY_TOKEN
           \<lparr>WEBHOOK_VERIFY_TOKEN = Some ''s3cret'', FACEBOOK_PAGE_ACCESS_TOKEN = None\<rparr>))
   \<and> res (get_webhook \<lparr>WEBHOOK_VERIFY_TOKEN = Some ''s3cret'', FACEBOOK_PAGE_ACCESS_TOKEN = None\<rparr>
            [(''hub.verify_token'', JStr ''WRONG''), (''hub.challenge'', JStr ''123'')] w0) = []"
  by (simp add: get_webhook_def own_prop_def env_value_def w0_def)

text \<open>
  Claim C8. For every GET verification request in which \<^verbatim>\<open>hub.mode\<close> or
  \<^verbatim>\<open>hub.verify_token\<close> is absent, the handler has no effect at all: it calls nothing
  on the response, neither a 200 nor a 403 nor any other status.
\<close>

theorem get_webhook_absent_parameter:
  assumes "own_prop query ''hub.mode'' = JUndefined
           \<or> own_prop query ''hub.verify_token'' = JUndefined"
  shows "get_webhook cfg query w = w"
  using assms by (auto simp add: get_webhook_def)

text \<open>A request with the right token and no \<^verbatim>\<open>hub.mode\<close>.\<close>

theorem get_webhook_absent_parameter_witness:
  "get_webhook example_config
     [(''hub.verify_token'', JStr ''s3cret''), (''hub.challenge'', JStr ''123'')] w0 = w0
   \<and> res w0 = []"
  using get_webhook_absent_parameter
    [of "[(''hub.verify_token'', JStr ''s3cret''), (''hub.challenge'', JStr ''123'')]"
        example_config w0]
  by (simp add: own_prop_def w0_def)


section \<open>The message endpoint: properties\<close>

text \<open>
  Claim C3. The claim reads: for every POST body with \<^verbatim>\<open>object\<close> equal to
  \<^verbatim>\<open>"page"\<close> the handler responds with 200 and \<^verbatim>\<open>"EVENT_RECEIVED"\<close>, whatever the
  shape of the entries. The code does not: on the body below, whose second entry carries
  its events under \<^verbatim>\<open>standby\<close> and has no \<^verbatim>\<open>messaging\<close>, the handler starts the
  responder for the first entry, throws a TypeError on \<^verbatim>\<open>entry.messaging[0]\<close> of
  the second, and never reaches \<^verbatim>\<open>res.status(200).send('EVENT_RECEIVED')\<close>.
\<close>

theorem post_webhook_no_acknowledgment:
  "post_webhook
     (JObj [(''object'', JStr ''page''),
            (''entry'', JArr
              [JObj [(''id'', JStr ''P1''),
                     (''messaging'', JArr [text_event ''U1'' ''Hi''])],
               JObj [(''id'', JStr ''P1''),
                     (''standby'', JArr [text_event ''U2'' ''Hello''])]])])
     w0
   = (Thrown TypeError,
      \<lparr>console = [Console_log [Lit ''Received message from '', Interp (JStr ''U1''),
                                Lit ('': '' @ [CHR 0x22]), Interp (JStr ''Hi''), Lit [CHR 0x22]]],
       res = [],
       handleMessage_calls = [(JStr ''U1'', JStr ''Hi'')],
       generateContent_calls = [], axios_post_calls = []\<rparr>)"
  by (simp add: handler reads effects payload w0_def)

text \<open>
  Claim C4. The claim reads: the responder is dispatched exactly for the events whose
  message text is present and non-empty, and an entry lacking message text causes no
  dispatch while the overall response is still 200. The code does not give the 200: in
  the body below the first entry is a read receipt, an event with a sender and no
  message, for which nothing is to be dispatched, and the second entry carries its events
  under \<^verbatim>\<open>standby\<close>. The handler dispatches nothing for the first entry, throws a
  TypeError on \<^verbatim>\<open>entry.messaging[0]\<close> of the second, and calls nothing on the
  response.
\<close>

theorem post_webhook_text_absent_no_acknowledgment:
  "dispatch_when text_present_nonempty
     (JObj [(''id'', JStr ''P1''),
            (''messaging'', JArr [JObj [(''sender'', JObj [(''id'', JStr ''U2'')]),
                                        (''read'', JObj [(''watermark'', JNum 1)])]])]) = []
   \<and> post_webhook
     (JObj [(''object'', JStr ''page''),
            (''entry'', JArr
              [JObj [(''id'', JStr ''P1''),
                     (''messaging'', JArr [JObj [(''sender'', JObj [(''id'', JStr ''U2'')]),
                                                 (''read'', JObj [(''watermark'', JNum 1)])]])],
               JObj [(''id'', JStr ''P1''),
                     (''standby'', JArr [text_event ''U3'' ''Hello''])]])])
     w0
   = (Thrown TypeError, w0)
   \<and> res w0 = [] \<and> handleMessage_calls w0 = []"
  by (simp add: handler reads effects payload w0_def dispatch_when_def text_present_nonempty_def)

text \<open>
  Claim C6. For every POST body whose \<^verbatim>\<open>object\<close> field is not \<^verbatim>\<open>"page"\<close>, the
  handler calls \<^verbatim>\<open>res.sendStatus(404)\<close> and that is the only effect of the request: no
  invocation of the responder is started, so no generative call and no delivery call is
  made.
\<close>

theorem post_webhook_not_page:
  assumes "get_prop body ''object'' = Some obj"
    and "\<not> strict_eq obj (JStr ''page'')"
  shows "serve_post e cfg body w = (Returned, w\<lparr>res := res w @ [Res_sendStatus 404]\<rparr>)"
  using assms by (simp add: serve_post_def post_webhook_def effects)

text \<open>
  A body that has the entries of the scenario and the object \<^verbatim>\<open>"user"\<close>; the same
  entries under \<^verbatim>\<open>"page"\<close> do reach both services.
\<close>

theorem post_webhook_not_page_witness:
  "serve_post working_env example_config
     (JObj [(''object'', JStr ''user''),
            (''entry'', JArr [messaging_entry [text_event ''U1'' ''Hi'']])]) w0
     = (Returned, \<lparr>console = [], res = [Res_sendStatus 404], handleMessage_calls = [],
                    generateContent_calls = [], axios_post_calls = []\<rparr>)
   \<and> length (generateContent_calls (snd (serve_post working_env example_config
        (page_body [messaging_entry [text_event ''U1'' ''Hi'']]) w0))) = 1
   \<and> length (axios_post_calls (snd (serve_post working_env example_config
        (page_body [messaging_entry [text_event ''U1'' ''Hi'']]) w0))) = 1"
proof -
  let ?body = "JObj [(''object'', JStr ''user''),
                     (''entry'', JArr [messaging_entry [text_event ''U1'' ''Hi'']])]"
  have "get_prop ?body ''object'' = Some (JStr ''user'')"
    by (simp add: own_prop_def)
  moreover have "\<not> strict_eq (JStr ''user'') (JStr ''page'')"
    by simp
  ultimately have "serve_post working_env example_config ?body w0
                     = (Returned, w0\<lparr>res := res w0 @ [Res_sendStatus 404]\<rparr>)"
    by (rule post_webhook_not_page)
  moreover have "length (generateContent_calls (snd (serve_post working_env example_config
        (page_body [messaging_entry [text_event ''U1'' ''Hi'']]) w0))) = 1"
    by (simp add: serve_post_def handler reads effects payload w0_def handleMessage_def
          handleMessage_try_def prompt_template_def sendReply_def working_env_def Let_def)
  moreover have "length (axios_post_calls (snd (serve_post working_env example_config
        (page_body [messaging_entry [text_event ''U1'' ''Hi'']]) w0))) = 1"
    by (simp add: serve_post_def handler reads effects payload w0_def handleMessage_def
          handleMessage_try_def prompt_template_def sendReply_def working_env_def Let_def)
  ultimately show ?thesis by (simp add: w0_def)
qed

text \<open>
  Claim C9. For every entry of a page-subscription POST body, only the first element of
  the entry's \<^verbatim>\<open>messaging\<close> array is inspected: two bodies whose entries have, one by
  one, the same first messaging event give the same outcome and the same effects, whatever
  events follow the first. The events after the first start no responder and change no
  response.
\<close>

theorem post_webhook_first_event_only:
  assumes "get_prop body1 ''object'' = Some (JStr ''page'')"
    and "get_prop body2 ''object'' = Some (JStr ''page'')"
    and "get_prop body1 ''entry'' = Some (JArr es1)"
    and "get_prop body2 ''entry'' = Some (JArr es2)"
    and "list_all2 same_first_event es1 es2"
  shows "post_webhook body1 w = post_webhook body2 w"
  using assms(1-4) forEach_first_event [OF assms(5)]
  by (simp add: post_webhook_def)

text \<open>
  An entry with two events, from \<^verbatim>\<open>U1\<close> and from \<^verbatim>\<open>U2\<close>, is handled as the entry
  with the first event alone: the responder is started for \<^verbatim>\<open>U1\<close> only.
\<close>

theorem post_webhook_first_event_only_witness:
  "post_webhook
     (page_body [messaging_entry [text_event ''U1'' ''Hi'', text_event ''U2'' ''Hello'']]) w0
   = post_webhook (page_body [messaging_entry [text_event ''U1'' ''Hi'']]) w0
   \<and> handleMessage_calls (snd (post_webhook
       (page_body [messaging_entry [text_event ''U1'' ''Hi'', text_event ''U2'' ''Hello'']]) w0))
     = [(JStr ''U1'', JStr ''Hi'')]"
proof -
  let ?es1 = "[messaging_entry [text_event ''U1'' ''Hi'', text_event ''U2'' ''Hello'']]"
  let ?es2 = "[messaging_entry [text_event ''U1'' ''Hi'']]"
  have same: "list_all2 same_first_event ?es1 ?es2"
    by (simp add: same_first_event_def first_event_def own_prop_def messaging_entry_def)
  have eq: "post_webhook (page_body ?es1) w0 = post_webhook (page_body ?es2) w0"
    by (rule post_webhook_first_event_only [OF _ _ _ _ same])
       (simp_all add: own_prop_def page_body_def)
  have "handleMessage_calls (snd (post_webhook (page_body ?es2) w0))
          = [(JStr ''U1'', JStr ''Hi'')]"
    by (simp add: handler reads effects payload w0_def)
  with eq show ?thesis by simp
qed

text \<open>
  Claim C10. The POST handler is not total over bodies with \<^verbatim>\<open>object\<close> equal to
  \<^verbatim>\<open>"page"\<close>: on an entry with an empty \<^verbatim>\<open>messaging\<close> array, on an entry with no
  \<^verbatim>\<open>messaging\<close>, and on an entry whose first event has no \<^verbatim>\<open>sender\<close>, it throws a
  TypeError while reading \<^verbatim>\<open>entry.messaging[0].sender.id\<close>, before anything is
  called on the response: no 200 is produced.
\<close>

theorem post_webhook_not_total:
  "get_prop (page_body [messaging_entry []]) ''object'' = Some (JStr ''page'')
   \<and> post_webhook (page_body [messaging_entry []]) w0 = (Thrown TypeError, w0)
   \<and> get_prop (page_body [JObj []]) ''object'' = Some (JStr ''page'')
   \<and> post_webhook (page_body [JObj []]) w0 = (Thrown TypeError, w0)
   \<and> get_prop (page_body [messaging_entry [JObj [(''message'', JObj [(''text'', JStr ''Hi'')])]]])
        ''object'' = Some (JStr ''page'')
   \<and> post_webhook
        (page_body [messaging_entry [JObj [(''message'', JObj [(''text'', JStr ''Hi'')])]]]) w0
       = (Thrown TypeError, w0)
   \<and> res w0 = []"
  by (simp add: handler reads payload w0_def)

section \<open>The message responder: properties\<close>

text \<open>
  Claim C5. For every invocation of the responder in which the generative call fails (the
  promise rejects, the result is malformed, or \<^verbatim>\<open>response.text()\<close> throws), the
  invocation returns to its caller without a throw, and it makes exactly one delivery
  request: to the same sender, with the fixed fallback string as text.
\<close>

theorem handleMessage_fallback:
  assumes "template (prompt_template messageText) = Some prompt"
    and "generative_failure (generateContent e (generateContent_calls w) prompt)"
  shows "fst (handleMessage e cfg senderId messageText w) = Returned
         \<and> axios_post_calls (snd (handleMessage e cfg senderId messageText w))
             = axios_post_calls w @ [reply_request cfg senderId (JStr fallback)]"
proof -
  obtain error w' where tried:
      "handleMessage_try e cfg senderId messageText w = (Thrown error, w')"
    and calls: "axios_post_calls w' = axios_post_calls w"
    using handleMessage_try_thrown [OF assms] by blast
  have "axios_post_calls (snd (handleMessage e cfg senderId messageText w))
          = axios_post_calls (console_error [Lit ''Error handling message:'', Caught error] w')
              @ [reply_request cfg senderId (JStr fallback)]"
    by (simp add: handleMessage_def tried sendReply_axios_post_calls)
  then show ?thesis
    by (simp add: handleMessage_returned calls console_error_def)
qed

text \<open>
  The generative call rejects for the message \<^verbatim>\<open>"Hi"\<close> of \<^verbatim>\<open>U1\<close>: one request,
  with recipient \<^verbatim>\<open>U1\<close> and the fallback text.
\<close>

theorem handleMessage_fallback_witness:
  "fst (handleMessage failing_env example_config (JStr ''U1'') (JStr ''Hi'') w0) = Returned
   \<and> map data (axios_post_calls
        (snd (handleMessage failing_env example_config (JStr ''U1'') (JStr ''Hi'') w0)))
     = [\<lparr>recipient_id = JStr ''U1'',
         message_text_field = JStr (''Sorry, I'' @ [CHR 0x27]
           @ ''m having a little trouble right now. Please try again later.'')\<rparr>]"
proof -
  have prompt: "template (prompt_template (JStr ''Hi'')) = Some (prompt_template (JStr ''Hi''))"
    by (simp add: template_def prompt_template_def)
  have fails: "generative_failure
      (generateContent failing_env (generateContent_calls w0) (prompt_template (JStr ''Hi'')))"
    by (simp add: failing_env_def)
  from handleMessage_fallback [OF prompt fails, of example_config "JStr ''U1''"]
  show ?thesis by (simp add: w0_def reply_request_def fallback_def)
qed

text \<open>
  Claim C7. Every invocation of \<^verbatim>\<open>sendReply\<close> returns to its caller without a throw
  and issues exactly one delivery request, whether the request succeeds or fails; when
  the delivery API fails, the one further effect is a line on the error console with the
  detail of the error.
\<close>

theorem sendReply_swallows_failure:
  "fst (sendReply e cfg recipientId text w) = Returned
   \<and> axios_post_calls (snd (sendReply e cfg recipientId text w))
       = axios_post_calls w @ [reply_request cfg recipientId text]
   \<and> (\<forall>error. axios_post e (axios_post_calls w) (reply_request cfg recipientId text)
                  = Axios_rejects error
          \<longrightarrow> snd (sendReply e cfg recipientId text w)
                = w\<lparr>console := console w @ [Console_error [Lit ''Unable to send message:'',
                                                            Interp (error_detail error)]],
                    axios_post_calls := axios_post_calls w
                                        @ [reply_request cfg recipientId text]\<rparr>)"
  by (simp add: sendReply_def Let_def effects split: axios_outcome.split)

text \<open>
  The delivery API answers 400 with a response body: the invocation returns, one request
  was made, and the body of the response is on the error console.
\<close>

theorem sendReply_swallows_failure_witness:
  "sendReply failing_env example_config (JStr ''U1'') (JStr ''Hello!'') w0
   = (Returned,
      \<lparr>console = [Console_error [Lit ''Unable to send message:'',
                                  Interp (JStr ''(#100) No matching user found'')]],
       res = [], handleMessage_calls = [], generateContent_calls = [],
       axios_post_calls = [reply_request example_config (JStr ''U1'') (JStr ''Hello!'')]\<rparr>)"
proof -
  have "axios_post failing_env (axios_post_calls w0)
          (reply_request example_config (JStr ''U1'') (JStr ''Hello!''))
        = Axios_rejects (AxiosError (JObj [(''data'', JStr ''(#100) No matching user found'')])
                                    ''Request failed with status code 400'')"
    by (simp add: failing_env_def)
  with sendReply_swallows_failure
    [of failing_env example_config "JStr ''U1''" "JStr ''Hello!''" w0]
  show ?thesis
    by (simp add: prod_eq_iff error_detail_def opt_chain_def own_prop_def w0_def)
qed


end
